theory Spec2Isabelle
  imports Complex_Main "HOL-Library.AList" "HOL-Library.Sublist"
begin

section \<open>Data model\<close>

text \<open>
  The program is a retrieval-augmented question answering service: \<^verbatim>\<open>main.py\<close> holds
  the two workflow functions (\<^verbatim>\<open>rag_ingest_pdf\<close>, \<^verbatim>\<open>rag_query_pdf_ai\<close>) with their
  inner steps \<^verbatim>\<open>_load\<close>, \<^verbatim>\<open>_upsert\<close> and \<^verbatim>\<open>_search\<close>; \<^verbatim>\<open>vector_db.py\<close> holds the
  class \<^verbatim>\<open>QdrantStorage\<close>; \<^verbatim>\<open>data_loader.py\<close> the PDF loader and the embedder;
  \<^verbatim>\<open>custom_types.py\<close> the pydantic result types.

  Strings are \<^typ>\<open>string\<close>. An embedding vector is a list of floats on which the source
  performs no arithmetic; it is carried as a list of reals. A payload is a Python dict
  from field names to strings, kept as an association list read with \<^const>\<open>map_of\<close>
  (the persisted schema has the two string fields \<^verbatim>\<open>source\<close> and \<^verbatim>\<open>text\<close>).
\<close>

type_synonym vector = "real list"

type_synonym payload = "(string \<times> string) list"

text \<open>Every exception of the source is a value. \<open>NotFound\<close>, \<open>ValidationError\<close> and
  \<open>DimensionMismatch\<close> are the vector store's refusals of a request; \<open>ServiceError\<close> is
  any other failure reported by an external service (PDF reader, embedding service,
  vector store).\<close>

datatype error =
    TypeError | IndexError | KeyError | NotFound | ValidationError | DimensionMismatch
  | ServiceError string

text \<open>\<^verbatim>\<open>custom_types.py\<close>: the pydantic models.\<close>

record RAGChunkAndSrc =
  chunks :: "string list"
  source_id :: string

record RAGUpsertResult =
  ingested :: nat

record RAGSearchResult =
  res_contexts :: "string list"
  res_sources :: "string list"

section \<open>Identity of a chunk\<close>

text \<open>
  \<^verbatim>\<open>str(i)\<close> for an index \<open>i\<close> of \<^verbatim>\<open>range(len(chunks))\<close>: the decimal digits of a
  natural number.
\<close>

definition digit_char :: "nat \<Rightarrow> char" where
  "digit_char d = ''0123456789'' ! d"

function str_nat :: "nat \<Rightarrow> string" where
  "str_nat n = (if n < 10 then [digit_char n] else str_nat (n div 10) @ [digit_char (n mod 10)])"
  by pat_completeness auto
termination
  by (relation "measure (\<lambda>n. n)") auto

declare str_nat.simps [simp del]

text \<open>The f-string \<^verbatim>\<open>f"{source_id}:{i}"\<close>, the name that is hashed.\<close>

definition uuid_name :: "string \<Rightarrow> nat \<Rightarrow> string" where
  "uuid_name source i = source @ '':'' @ str_nat i"

text \<open>
  \<^verbatim>\<open>str(uuid.uuid5(uuid.NAMESPACE_URL, f"{source_id}:{i}"))\<close>. The standard library's
  \<^verbatim>\<open>uuid5\<close> (SHA-1 of the namespace and the name, printed as a UUID) is a function of the
  name alone; it is the parameter \<open>uuid5\<close>, from a name to the printed identifier.
\<close>

definition derive_id :: "(string \<Rightarrow> string) \<Rightarrow> string \<Rightarrow> nat \<Rightarrow> string" where
  "derive_id uuid5 source i = uuid5 (uuid_name source i)"

section \<open>The vector store and the embedding service\<close>

text \<open>
  The Qdrant server is external. Its state is a list of named collections, each with the
  vector size and distance it was created with and its points (\<^verbatim>\<open>PointStruct\<close>: id,
  vector, payload). A search answers with \<^verbatim>\<open>ScoredPoint\<close>s, of which the source reads
  only the attribute \<^verbatim>\<open>payload\<close> (\<open>None\<close> when the point carries none).
\<close>

datatype distance = COSINE | EUCLID | DOT | MANHATTAN

record point =
  pid :: string
  pvector :: vector
  ppayload :: payload

record qcollection =
  c_size :: nat
  c_distance :: distance
  c_points :: "point list"

type_synonym server = "(string \<times> qcollection) list"

record scored_point =
  sp_id :: string
  sp_payload :: "payload option"

text \<open>The keyword arguments of a call of the client, by name, as the call site writes
  them.\<close>

datatype arg = AStr string | AVec vector | ABool bool | AInt int

type_synonym kwargs = "(string \<times> arg) list"

text \<open>
  The world a step runs in: the server's collections, and the trace of the calls made to
  the external services (embedding service and Qdrant client), oldest first.
\<close>

datatype call =
    Embed "string list"
  | CollectionExists string
  | CreateCollection string nat distance
  | ClientUpsert string "point list"
  | ClientSearch kwargs

record world =
  store :: server
  trace :: "call list"

text \<open>Modelled from the spec: the client's \<^verbatim>\<open>collection_exists\<close>, which the sources do
  not hold; a collection is present when the server has one of that name.\<close>

definition collection_exists :: "server \<Rightarrow> string \<Rightarrow> bool" where
  "collection_exists srv name = (map_of srv name \<noteq> None)"

text \<open>Modelled from the spec: the client's \<^verbatim>\<open>create_collection\<close>, which the sources do
  not hold; it adds an empty collection with the given dimension and metric.\<close>

definition create_collection :: "server \<Rightarrow> string \<Rightarrow> nat \<Rightarrow> distance \<Rightarrow> server" where
  "create_collection srv name vdim metric =
     srv @ [(name, \<lparr>c_size = vdim, c_distance = metric, c_points = []\<rparr>)]"

text \<open>An id the store takes for a point, when it is a string: a UUID as Python prints
  it, 32 hexadecimal digits in groups of 8, 4, 4, 4 and 12 separated by hyphens.\<close>

definition hex_digit :: "char \<Rightarrow> bool" where
  "hex_digit c = (c \<in> set ''0123456789abcdefABCDEF'')"

definition is_uuid :: "string \<Rightarrow> bool" where
  "is_uuid s =
     (length s = 36 \<and>
      list_all hex_digit (take 8 s) \<and> s ! 8 = CHR ''-'' \<and>
      list_all hex_digit (take 4 (drop 9 s)) \<and> s ! 13 = CHR ''-'' \<and>
      list_all hex_digit (take 4 (drop 14 s)) \<and> s ! 18 = CHR ''-'' \<and>
      list_all hex_digit (take 4 (drop 19 s)) \<and> s ! 23 = CHR ''-'' \<and>
      list_all hex_digit (drop 24 s))"

text \<open>Insert a point, or overwrite the record that has its id.\<close>

fun upsert_point :: "point \<Rightarrow> point list \<Rightarrow> point list" where
  "upsert_point p [] = [p]"
| "upsert_point p (q # qs) = (if pid q = pid p then p # qs else q # upsert_point p qs)"

text \<open>Modelled from the spec: the client's \<^verbatim>\<open>upsert\<close>, which the sources do not hold.
  The store validates the whole batch before it writes: the collection must exist, the
  batch must hold a point, every id must be a UUID and every vector must have the
  collection's dimension. A batch that fails a check is refused with an error and the
  collection is left as it was (no truncation, no padding, no partial write). A batch
  that passes is applied point by point: each point is inserted, or overwrites the record
  that has its id.\<close>

definition client_upsert :: "server \<Rightarrow> string \<Rightarrow> point list \<Rightarrow> error + server" where
  "client_upsert srv name points =
     (case map_of srv name of
        None \<Rightarrow> Inl NotFound
      | Some col \<Rightarrow>
          if points = [] then Inl ValidationError
          else if list_ex (\<lambda>p. \<not> is_uuid (pid p)) points then Inl ValidationError
          else if list_ex (\<lambda>p. length (pvector p) \<noteq> c_size col) points then Inl DimensionMismatch
          else
            Inr (AList.update name
                   (col\<lparr>c_points := foldl (\<lambda>ps p. upsert_point p ps) (c_points col) points\<rparr>) srv))"

subsection \<open>\<^verbatim>\<open>vector_db.py\<close>: class \<^verbatim>\<open>QdrantStorage\<close>\<close>

record QdrantStorage =
  client_url :: string
  collection :: string

text \<open>
  \<^verbatim>\<open>__init__(self, url, collection, dim)\<close>: asks the client whether the collection exists
  and creates it (size \<open>vdim\<close>, the parameter \<^verbatim>\<open>dim\<close>; cosine distance) when it does not. The body has no other
  branch and no \<^verbatim>\<open>raise\<close>; the result is a sum so that a failure would be a value.
\<close>

definition QdrantStorage_init ::
  "world \<Rightarrow> string \<Rightarrow> string \<Rightarrow> nat \<Rightarrow> (error + QdrantStorage) \<times> world" where
  "QdrantStorage_init w url coll vdim =
     (let self = \<lparr>client_url = url, collection = coll\<rparr>;
          w1 = w\<lparr>trace := trace w @ [CollectionExists coll]\<rparr>
      in if \<not> collection_exists (store w1) coll
         then (Inr self,
               w1\<lparr>store := create_collection (store w1) coll vdim COSINE,
                  trace := trace w1 @ [CreateCollection coll vdim COSINE]\<rparr>)
         else (Inr self, w1))"

text \<open>
  \<^verbatim>\<open>upsert(self, ids, vectors, payloads)\<close>: the list comprehension indexes all three lists
  over \<^verbatim>\<open>range(len(ids))\<close>, so a shorter \<open>vectors\<close> or \<open>payloads\<close> raises \<^verbatim>\<open>IndexError\<close>
  before the client is called.
\<close>

definition upsert ::
  "world \<Rightarrow> QdrantStorage \<Rightarrow> string list \<Rightarrow> vector list \<Rightarrow> payload list \<Rightarrow> (error + unit) \<times> world" where
  "upsert w self ids vectors payloads =
     (if length vectors < length ids \<or> length payloads < length ids then (Inl IndexError, w)
      else
        let points = map (\<lambda>i. \<lparr>pid = ids ! i, pvector = vectors ! i, ppayload = payloads ! i\<rparr>)
                       [0..<length ids];
            w1 = w\<lparr>trace := trace w @ [ClientUpsert (collection self) points]\<rparr>
        in case client_upsert (store w1) (collection self) points of
             Inl e \<Rightarrow> (Inl e, w1)
           | Inr srv \<Rightarrow> (Inr (), w1\<lparr>store := srv\<rparr>))"

text \<open>
  A call \<^verbatim>\<open>upsert(ids=..., vectors=..., payloads=...)\<close> of that function with keyword
  arguments only. \<open>receiver\<close> is the instance bound to \<open>self\<close>: \<open>Some\<close> for a call on an
  instance, \<open>None\<close> when the function is taken from the class itself and no instance is
  passed; then Python cannot bind \<open>self\<close> and raises \<^verbatim>\<open>TypeError\<close> before the body runs.
\<close>

definition upsert_call ::
  "QdrantStorage option \<Rightarrow> world \<Rightarrow> string list \<Rightarrow> vector list \<Rightarrow> payload list
     \<Rightarrow> (error + unit) \<times> world" where
  "upsert_call receiver w ids vectors payloads =
     (case receiver of
        None \<Rightarrow> (Inl TypeError, w)
      | Some self \<Rightarrow> upsert w self ids vectors payloads)"

text \<open>
  \<^verbatim>\<open>search(self, query_vector, top_k)\<close>. The keyword arguments of its one call of the
  client, as the source spells them (the first is written \<^verbatim>\<open>colelction_name\<close>).
\<close>

definition search_kwargs :: "QdrantStorage \<Rightarrow> vector \<Rightarrow> int \<Rightarrow> kwargs" where
  "search_kwargs self query_vector top_k =
     [(''colelction_name'', AStr (collection self)),
      (''query_vector'', AVec query_vector),
      (''with_payload'', ABool True),
      (''limit'', AInt top_k)]"

text \<open>The values the loop body reads from one result \<open>r\<close>:
  \<^verbatim>\<open>payload = getattr(r, "payload", None) or {}\<close>, \<^verbatim>\<open>payload.get('text', None)\<close>,
  \<^verbatim>\<open>payload.get('source', "")\<close>, and the test \<^verbatim>\<open>if text:\<close> (a string is true when it is not
  empty).\<close>

definition payload_of :: "scored_point \<Rightarrow> payload" where
  "payload_of r = (case sp_payload r of None \<Rightarrow> [] | Some d \<Rightarrow> d)"

definition text_of :: "scored_point \<Rightarrow> string option" where
  "text_of r = map_of (payload_of r) ''text''"

definition source_of :: "scored_point \<Rightarrow> string" where
  "source_of r = (case map_of (payload_of r) ''source'' of None \<Rightarrow> [] | Some s \<Rightarrow> s)"

definition has_text :: "scored_point \<Rightarrow> bool" where
  "has_text r = (case text_of r of None \<Rightarrow> False | Some t \<Rightarrow> t \<noteq> [])"

text \<open>\<^verbatim>\<open>sources.add(source)\<close> on a Python set, kept as a list without repetition in order
  of first insertion. \<^verbatim>\<open>list(sources)\<close> enumerates the set in an order Python leaves
  open; the model returns this list, and no statement below depends on its order.\<close>

definition set_add :: "string \<Rightarrow> string list \<Rightarrow> string list" where
  "set_add x xs = (if x \<in> set xs then xs else xs @ [x])"

text \<open>The \<^verbatim>\<open>for r in results\<close> loop, with the two accumulators \<open>contexts\<close> and \<open>sources\<close>.\<close>

fun search_loop :: "scored_point list \<Rightarrow> string list \<Rightarrow> string list \<Rightarrow> string list \<times> string list" where
  "search_loop [] ctxs srcs = (ctxs, srcs)"
| "search_loop (r # results) ctxs srcs =
     (case text_of r of
        None \<Rightarrow> search_loop results ctxs srcs
      | Some text \<Rightarrow>
          if text \<noteq> [] then search_loop results (ctxs @ [text]) (set_add (source_of r) srcs)
          else search_loop results ctxs srcs)"

text \<open>The dict \<^verbatim>\<open>{"contexts": contexts, "sources": list(sources)}\<close> that \<^verbatim>\<open>search\<close> returns.\<close>

record found =
  contexts :: "string list"
  sources :: "string list"

text \<open>Lines 44 to 57: the accumulators start empty, the loop runs over the client's
  results, the dict is returned.\<close>

definition collect :: "scored_point list \<Rightarrow> found" where
  "collect results =
     (case search_loop results [] [] of (ctxs, srcs) \<Rightarrow> \<lparr>contexts = ctxs, sources = srcs\<rparr>)"

text \<open>The behaviour of the client's \<^verbatim>\<open>search\<close> is the parameter \<open>client_search\<close>: from the
  server's state and the keyword arguments to the scored points, or an error. It reads
  the server and does not change it.\<close>

definition search ::
  "(server \<Rightarrow> kwargs \<Rightarrow> error + scored_point list) \<Rightarrow> world \<Rightarrow> QdrantStorage \<Rightarrow> vector \<Rightarrow> int
     \<Rightarrow> (error + found) \<times> world" where
  "search client_search w self query_vector top_k =
     (let kw = search_kwargs self query_vector top_k;
          w1 = w\<lparr>trace := trace w @ [ClientSearch kw]\<rparr>
      in case client_search (store w1) kw of
           Inl e \<Rightarrow> (Inl e, w1)
         | Inr results \<Rightarrow> (Inr (collect results), w1))"

subsection \<open>\<^verbatim>\<open>data_loader.py\<close>\<close>

text \<open>
  \<^verbatim>\<open>embed_texts(texts)\<close>: one call of the embedding service for the whole list; the
  service is the parameter \<open>embeddings_create\<close>, giving the embeddings of the response
  in order, or an error.
\<close>

definition embed_texts ::
  "(string list \<Rightarrow> error + vector list) \<Rightarrow> world \<Rightarrow> string list \<Rightarrow> (error + vector list) \<times> world" where
  "embed_texts embeddings_create w texts =
     (embeddings_create texts, w\<lparr>trace := trace w @ [Embed texts]\<rparr>)"

text \<open>
  \<^verbatim>\<open>load_and_chunk_pdf(path)\<close>: the PDF reader (\<open>load_data\<close>, giving for each document
  its \<^verbatim>\<open>text\<close> attribute if it has one) and the sentence splitter (\<open>split_texts\<close>) are
  parameters. Documents without text, or with empty text, are dropped; the chunks of the
  others are concatenated in order.
\<close>

definition load_and_chunk_pdf ::
  "(string \<Rightarrow> error + string option list) \<Rightarrow> (string \<Rightarrow> string list) \<Rightarrow> string
     \<Rightarrow> error + string list" where
  "load_and_chunk_pdf load_data split_texts path =
     (case load_data path of
        Inl e \<Rightarrow> Inl e
      | Inr docs \<Rightarrow>
          Inr (concat (map split_texts
                 (concat (map (\<lambda>d. case d of None \<Rightarrow> [] | Some t \<Rightarrow> if t \<noteq> [] then [t] else []) docs)))))"

subsection \<open>\<^verbatim>\<open>main.py\<close>: the ingestion and the retrieval steps\<close>

text \<open>\<^verbatim>\<open>_load(ctx)\<close>; \<open>data\<close> is \<^verbatim>\<open>ctx.event.data\<close>.\<close>

definition inner_load ::
  "(string \<Rightarrow> error + string option list) \<Rightarrow> (string \<Rightarrow> string list) \<Rightarrow> (string \<times> string) list
     \<Rightarrow> error + RAGChunkAndSrc" where
  "inner_load load_data split_texts data =
     (case map_of data ''pdf_path'' of
        None \<Rightarrow> Inl KeyError
      | Some pdf_path \<Rightarrow>
          (let src = (case map_of data ''source_id'' of None \<Rightarrow> pdf_path | Some s \<Rightarrow> s)
           in case load_and_chunk_pdf load_data split_texts pdf_path of
                Inl e \<Rightarrow> Inl e
              | Inr chs \<Rightarrow> Inr \<lparr>chunks = chs, source_id = src\<rparr>))"

text \<open>The two list comprehensions of \<^verbatim>\<open>_upsert\<close>, over \<^verbatim>\<open>range(len(chunks))\<close>.\<close>

definition upsert_ids :: "(string \<Rightarrow> string) \<Rightarrow> string \<Rightarrow> string list \<Rightarrow> string list" where
  "upsert_ids uuid5 src chs = map (\<lambda>i. derive_id uuid5 src i) [0..<length chs]"

definition upsert_payloads :: "string \<Rightarrow> string list \<Rightarrow> payload list" where
  "upsert_payloads src chs = map (\<lambda>i. [(''source'', src), (''text'', chs ! i)]) [0..<length chs]"

text \<open>
  \<^verbatim>\<open>_upsert(chunks_and_src)\<close>: embed the chunks, build ids and payloads, then
  \<^verbatim>\<open>QdrantStorage.upsert(ids = ids, vectors = vecs, payloads = payloads)\<close>: the function is
  taken from the class and called without an instance (receiver \<open>None\<close>).
\<close>

definition inner_upsert ::
  "(string \<Rightarrow> string) \<Rightarrow> (string list \<Rightarrow> error + vector list) \<Rightarrow> world \<Rightarrow> RAGChunkAndSrc
     \<Rightarrow> (error + RAGUpsertResult) \<times> world" where
  "inner_upsert uuid5 embeddings_create w chunks_and_src =
     (let chs = chunks chunks_and_src;
          src = source_id chunks_and_src
      in case embed_texts embeddings_create w chs of
           (Inl e, w1) \<Rightarrow> (Inl e, w1)
         | (Inr vecs, w1) \<Rightarrow>
             (let ids = upsert_ids uuid5 src chs;
                  payloads = upsert_payloads src chs
              in case upsert_call None w1 ids vecs payloads of
                   (Inl e, w2) \<Rightarrow> (Inl e, w2)
                 | (Inr u, w2) \<Rightarrow> (Inr \<lparr>ingested = length chs\<rparr>, w2)))"

text \<open>
  \<^verbatim>\<open>rag_ingest_pdf(ctx)\<close>: the step \<^verbatim>\<open>load-and-chunk\<close>, then the step \<^verbatim>\<open>embed-and-upsert\<close>.
  The workflow engine that runs the steps (and may retry one that failed) is outside the
  sources; a step is run once here and its error is the run's error.
\<close>

definition rag_ingest_pdf ::
  "(string \<Rightarrow> error + string option list) \<Rightarrow> (string \<Rightarrow> string list) \<Rightarrow> (string \<Rightarrow> string)
     \<Rightarrow> (string list \<Rightarrow> error + vector list) \<Rightarrow> world \<Rightarrow> (string \<times> string) list
     \<Rightarrow> (error + RAGUpsertResult) \<times> world" where
  "rag_ingest_pdf load_data split_texts uuid5 embeddings_create w data =
     (case inner_load load_data split_texts data of
        Inl e \<Rightarrow> (Inl e, w)
      | Inr chunks_and_src \<Rightarrow> inner_upsert uuid5 embeddings_create w chunks_and_src)"

text \<open>
  \<^verbatim>\<open>_search(question, top_k)\<close>: embed the question and take the first vector
  (\<^verbatim>\<open>IndexError\<close> on an empty list), construct \<^verbatim>\<open>QdrantStorage()\<close> with its defaults, search.
\<close>

definition inner_search ::
  "(string list \<Rightarrow> error + vector list) \<Rightarrow> (server \<Rightarrow> kwargs \<Rightarrow> error + scored_point list)
     \<Rightarrow> world \<Rightarrow> string \<Rightarrow> int \<Rightarrow> (error + RAGSearchResult) \<times> world" where
  "inner_search embeddings_create client_search w question top_k =
     (case embed_texts embeddings_create w [question] of
        (Inl e, w1) \<Rightarrow> (Inl e, w1)
      | (Inr [], w1) \<Rightarrow> (Inl IndexError, w1)
      | (Inr (query_vec # rest), w1) \<Rightarrow>
          (case QdrantStorage_init w1 ''http://localhost:6333'' ''docs'' 3072 of
             (Inl e, w2) \<Rightarrow> (Inl e, w2)
           | (Inr st, w2) \<Rightarrow>
               (case search client_search w2 st query_vec top_k of
                  (Inl e, w3) \<Rightarrow> (Inl e, w3)
                | (Inr f, w3) \<Rightarrow> (Inr \<lparr>res_contexts = contexts f, res_sources = sources f\<rparr>, w3))))"

section \<open>Reference client, test doubles and observations\<close>

text \<open>The ids of the records stored in a collection, in the order the store holds them
  (the empty list for a collection that does not exist).\<close>

definition stored_ids :: "server \<Rightarrow> string \<Rightarrow> string list" where
  "stored_ids srv name = (case map_of srv name of None \<Rightarrow> [] | Some col \<Rightarrow> map pid (c_points col))"

text \<open>Modelled from the spec: the record a query returns for a stored point, which the
  sources do not hold; queried with payloads, the store passes the point's payload
  through.\<close>

definition to_scored :: "point \<Rightarrow> scored_point" where
  "to_scored p = \<lparr>sp_id = pid p, sp_payload = Some (ppayload p)\<rparr>"

text \<open>
  Modelled from the spec: the store's nearest-neighbour query, which the sources do not
  hold: the first \<open>limit\<close> records (ten when no limit is given) of the named collection
  in the order of relevance \<open>rank\<close> (the metric and the tie-break are the store's), a
  missing collection being an error. The method takes its collection under the keyword
  \<^verbatim>\<open>collection_name\<close>, the spelling the source itself uses in its call of
  \<^verbatim>\<open>create_collection\<close>, and the query under \<^verbatim>\<open>query_vector\<close>; a call that gives no value
  for one of them cannot bind it, which in Python is \<^verbatim>\<open>TypeError\<close>.
\<close>

definition qdrant_search ::
  "(vector \<Rightarrow> point list \<Rightarrow> point list) \<Rightarrow> server \<Rightarrow> kwargs \<Rightarrow> error + scored_point list" where
  "qdrant_search rank srv kw =
     (case map_of kw ''collection_name'' of
        Some (AStr name) \<Rightarrow>
          (case map_of kw ''query_vector'' of
             Some (AVec q) \<Rightarrow>
               (case map_of srv name of
                  None \<Rightarrow> Inl NotFound
                | Some col \<Rightarrow>
                    Inr (map to_scored
                      (take (case map_of kw ''limit'' of Some (AInt k) \<Rightarrow> nat k | _ \<Rightarrow> 10)
                         (rank q (c_points col)))))
           | _ \<Rightarrow> Inl TypeError)
      | _ \<Rightarrow> Inl TypeError)"

text \<open>
  A test double of the client's search: it ignores the server and the collection name
  and answers every query with the first \<open>limit\<close> records of a fixed list.
\<close>

definition stub_search :: "scored_point list \<Rightarrow> server \<Rightarrow> kwargs \<Rightarrow> error + scored_point list" where
  "stub_search rs srv kw =
     (case map_of kw ''limit'' of Some (AInt k) \<Rightarrow> Inr (take (nat k) rs) | _ \<Rightarrow> Inl TypeError)"

text \<open>Test doubles of the embedding service (one fixed vector for each text), of the PDF
  reader (a file whose only page has no text) and of the splitter (one chunk for a
  text).\<close>

definition unit_embedder :: "string list \<Rightarrow> error + vector list" where
  "unit_embedder texts = Inr (map (\<lambda>t. [1, 0]) texts)"

definition no_text_reader :: "string \<Rightarrow> error + string option list" where
  "no_text_reader path = Inr [None]"

definition whole_text :: "string \<Rightarrow> string list" where
  "whole_text t = [t]"

text \<open>A relevance order for the reference client: the order in which the collection
  holds its points.\<close>

definition stored_order :: "vector \<Rightarrow> point list \<Rightarrow> point list" where
  "stored_order q ps = ps"

section \<open>Properties of the identity derivation\<close>

lemma uuid_name_inj_source: "uuid_name s1 i = uuid_name s2 i \<Longrightarrow> s1 = s2"
  by (simp add: uuid_name_def)

text \<open>The decimal string of an index determines the index, so the names of one source
  differ from index to index.\<close>

lemma digit_char_inj: "a < 10 \<Longrightarrow> b < 10 \<Longrightarrow> digit_char a = digit_char b \<Longrightarrow> a = b"
proof -
  assume a: "a < 10" and b: "b < 10" and eq: "digit_char a = digit_char b"
  from a have "a \<in> {0, 1, 2, 3, 4, 5, 6, 7, 8, 9}" by auto
  moreover from b have "b \<in> {0, 1, 2, 3, 4, 5, 6, 7, 8, 9}" by auto
  ultimately show "a = b" using eq
    by (auto simp: digit_char_def)
qed

lemma str_nat_nonempty: "str_nat n \<noteq> []"
  by (subst str_nat.simps) simp

lemma str_nat_inj: "str_nat n = str_nat m \<Longrightarrow> n = m"
proof (induction n arbitrary: m rule: str_nat.induct)
  case (1 n)
  show ?case
  proof (cases "n < 10")
    case small: True
    show ?thesis
    proof (cases "m < 10")
      case True
      with small "1.prems" show ?thesis
        by (simp add: str_nat.simps [of n] str_nat.simps [of m] digit_char_inj)
    next
      case False
      with small "1.prems" show ?thesis
        using str_nat_nonempty [of "m div 10"]
        by (simp add: str_nat.simps [of n] str_nat.simps [of m])
    qed
  next
    case big: False
    show ?thesis
    proof (cases "m < 10")
      case True
      with big "1.prems" show ?thesis
        using str_nat_nonempty [of "n div 10"]
        by (simp add: str_nat.simps [of n] str_nat.simps [of m])
    next
      case False
      with big "1.prems" have eq: "str_nat (n div 10) = str_nat (m div 10)"
        and d: "digit_char (n mod 10) = digit_char (m mod 10)"
        by (simp_all add: str_nat.simps [of n] str_nat.simps [of m])
      from "1.IH" [OF big eq] have q: "n div 10 = m div 10" .
      from d have r: "n mod 10 = m mod 10" by (intro digit_char_inj) simp_all
      from q r show ?thesis by (metis div_mult_mod_eq)
    qed
  qed
qed

lemma uuid_name_inj_index: "uuid_name s i = uuid_name s j \<Longrightarrow> i = j"
  by (simp add: uuid_name_def str_nat_inj)

text \<open>
  Claim C2. The identity derivation is a function of the source id and the index alone
  (no counter, no random seed: \<open>derive_id s i\<close> always equals \<open>derive_id s i\<close>), and two
  distinct source ids give distinct hashed names at every index, so their identifiers
  differ unless the hash itself collides on these two names.
\<close>

theorem derive_id_deterministic_no_collision:
  "derive_id uuid5 s i = derive_id uuid5 s i \<and>
   (s1 \<noteq> s2 \<longrightarrow>
      uuid_name s1 i \<noteq> uuid_name s2 i \<and>
      (inj_on uuid5 {uuid_name s1 i, uuid_name s2 i} \<longrightarrow>
         derive_id uuid5 s1 i \<noteq> derive_id uuid5 s2 i))"
proof -
  have names: "uuid_name s1 i \<noteq> uuid_name s2 i" if "s1 \<noteq> s2"
    using that uuid_name_inj_source by blast
  have ids: "derive_id uuid5 s1 i \<noteq> derive_id uuid5 s2 i"
    if "s1 \<noteq> s2" and "inj_on uuid5 {uuid_name s1 i, uuid_name s2 i}"
  proof
    assume "derive_id uuid5 s1 i = derive_id uuid5 s2 i"
    then have "uuid5 (uuid_name s1 i) = uuid5 (uuid_name s2 i)"
      by (simp add: derive_id_def)
    with that(2) have "uuid_name s1 i = uuid_name s2 i"
      by (rule inj_onD) simp_all
    with names that(1) show False by blast
  qed
  from names ids show ?thesis by blast
qed

theorem derive_id_deterministic_no_collision_witness:
  "''doc1'' \<noteq> ''doc2'' \<and> uuid_name ''doc1'' 3 = ''doc1:3'' \<and> uuid_name ''doc2'' 3 = ''doc2:3'' \<and>
   inj_on rev {uuid_name ''doc1'' 3, uuid_name ''doc2'' 3} \<and>
   derive_id rev ''doc1'' 3 = ''3:1cod'' \<and>
   derive_id rev ''doc1'' 3 \<noteq> derive_id rev ''doc2'' 3"
proof -
  have n1: "uuid_name ''doc1'' 3 = ''doc1:3''"
    by (simp add: uuid_name_def str_nat.simps digit_char_def)
  have n2: "uuid_name ''doc2'' 3 = ''doc2:3''"
    by (simp add: uuid_name_def str_nat.simps digit_char_def)
  have d: "''doc1'' \<noteq> ''doc2''" by simp
  have inj: "inj_on rev {uuid_name ''doc1'' 3, uuid_name ''doc2'' 3}"
    by (simp add: inj_on_def)
  have v: "derive_id rev ''doc1'' 3 = ''3:1cod''"
    by (simp add: derive_id_def n1)
  from derive_id_deterministic_no_collision [of rev "''doc1''" 3 "''doc1''" "''doc2''"] d inj
  have "derive_id rev ''doc1'' 3 \<noteq> derive_id rev ''doc2'' 3" by blast
  with n1 n2 d inj v show ?thesis by blast
qed

section \<open>The loop of \<^verbatim>\<open>search\<close>\<close>

text \<open>The loop read as a whole: the contexts are the texts of the results that have one,
  in order, and the sources are the sources of those same results.\<close>

lemma search_loop_contexts:
  "fst (search_loop rs c s) = c @ map (the \<circ> text_of) (filter has_text rs)"
  by (induction rs arbitrary: c s) (auto simp: has_text_def split: option.splits)

lemma search_loop_sources_set:
  "set (snd (search_loop rs c s)) = set s \<union> set (map source_of (filter has_text rs))"
  by (induction rs arbitrary: c s) (auto simp: has_text_def set_add_def split: option.splits)


lemma search_loop_sources_length:
  "length (snd (search_loop rs c s)) \<le> length s + length (filter has_text rs)"
proof (induction rs arbitrary: c s)
  case Nil
  show ?case by simp
next
  case (Cons r rs)
  show ?case
  proof (cases "has_text r")
    case True
    then obtain t where t: "text_of r = Some t" "t \<noteq> []"
      by (auto simp: has_text_def split: option.splits)
    have "length (set_add (source_of r) s) \<le> Suc (length s)"
      by (simp add: set_add_def)
    with Cons [of "c @ [t]" "set_add (source_of r) s"] t True show ?thesis
      by simp
  next
    case False
    with Cons [of c s] show ?thesis
      by (auto simp: has_text_def split: option.splits)
  qed
qed

lemma collect_contexts: "contexts (collect rs) = map (the \<circ> text_of) (filter has_text rs)"
  using search_loop_contexts [of rs "[]" "[]"] by (simp add: collect_def case_prod_beta)

lemma collect_sources_set: "set (sources (collect rs)) = set (map source_of (filter has_text rs))"
  using search_loop_sources_set [of rs "[]" "[]"] by (simp add: collect_def case_prod_beta)


lemma collect_sources_length: "length (sources (collect rs)) \<le> length (filter has_text rs)"
  using search_loop_sources_length [of rs "[]" "[]"] by (simp add: collect_def case_prod_beta)

lemma collect_contexts_nonempty: "[] \<notin> set (contexts (collect rs))"
  by (auto simp: collect_contexts has_text_def split: option.splits)

text \<open>A result has a text when its payload holds a non-empty string under \<^verbatim>\<open>text\<close>; a
  result without payload, without that key, or with the empty string has none.\<close>

lemma has_text_iff: "has_text r \<longleftrightarrow> (\<exists>t. map_of (payload_of r) ''text'' = Some t \<and> t \<noteq> [])"
  by (auto simp: has_text_def text_of_def split: option.splits)

text \<open>\<^verbatim>\<open>search\<close> is one call of the client followed by the loop; it changes nothing but
  the trace.\<close>

lemma search_unfold:
  "search cs w self q k =
     (case cs (store w) (search_kwargs self q k) of
        Inl e \<Rightarrow> Inl e
      | Inr rs \<Rightarrow> Inr (collect rs),
      w\<lparr>trace := trace w @ [ClientSearch (search_kwargs self q k)]\<rparr>)"
  by (simp add: search_def Let_def split: sum.splits)

text \<open>
  With a client that takes its collection under \<^verbatim>\<open>collection_name\<close>, the call as the
  source spells it binds no collection: \<^verbatim>\<open>search\<close> raises before the loop runs. The
  statements about the loop (C7, C8 and C10) hold for every list of results, and those
  about \<^verbatim>\<open>search\<close> for every client, so they do not depend on how a client treats that
  keyword; what it does to the records \<^verbatim>\<open>search\<close> returns is C6.
\<close>

lemma search_misspelt_keyword:
  "search (qdrant_search rank) w self q k =
     (Inl TypeError, w\<lparr>trace := trace w @ [ClientSearch (search_kwargs self q k)]\<rparr>)"
  by (simp add: search_unfold qdrant_search_def search_kwargs_def)

text \<open>
  Claim C7. A retrieved record whose payload has a missing or empty text is skipped: the
  contexts are exactly the texts of the retrieved records that have a non-empty text, in
  order, and the empty text never appears. The filter works on the records already
  fetched: \<^verbatim>\<open>search\<close> queries the client once, with limit \<open>top_k\<close>, and its result is the
  loop's result on that one answer.
\<close>

theorem search_skips_missing_text_after_retrieval:
  "snd (search cs w self q k) = w\<lparr>trace := trace w @ [ClientSearch (search_kwargs self q k)]\<rparr> \<and>
   map_of (search_kwargs self q k) ''limit'' = Some (AInt k) \<and>
   fst (search cs w self q k) =
     (case cs (store w) (search_kwargs self q k) of Inl e \<Rightarrow> Inl e | Inr rs \<Rightarrow> Inr (collect rs)) \<and>
   contexts (collect rs) = map (the \<circ> text_of) (filter has_text rs) \<and>
   [] \<notin> set (contexts (collect rs))"
proof (intro conjI)
  show "snd (search cs w self q k) = w\<lparr>trace := trace w @ [ClientSearch (search_kwargs self q k)]\<rparr>"
    by (simp add: search_unfold)
  show "map_of (search_kwargs self q k) ''limit'' = Some (AInt k)"
    by (simp add: search_kwargs_def)
  show "fst (search cs w self q k) =
     (case cs (store w) (search_kwargs self q k) of Inl e \<Rightarrow> Inl e | Inr rs \<Rightarrow> Inr (collect rs))"
    by (simp add: search_unfold)
  show "contexts (collect rs) = map (the \<circ> text_of) (filter has_text rs)"
    by (rule collect_contexts)
  show "[] \<notin> set (contexts (collect rs))"
    by (rule collect_contexts_nonempty)
qed


text \<open>Two records with the same text and the same source: both texts are kept, the source
  is listed once.\<close>

lemma collect_duplicates_example:
  "collect [\<lparr>sp_id = ''p1'', sp_payload = Some [(''source'', ''doc1''), (''text'', ''alpha'')]\<rparr>,
            \<lparr>sp_id = ''p2'', sp_payload = Some [(''source'', ''doc1''), (''text'', ''alpha'')]\<rparr>,
            \<lparr>sp_id = ''p3'', sp_payload = None\<rparr>]
   = \<lparr>contexts = [''alpha'', ''alpha''], sources = [''doc1'']\<rparr>"
  by (simp add: collect_def text_of_def payload_of_def source_of_def set_add_def)

text \<open>
  Claim C10. A source is listed only when its record contributed a context: the sources
  are the sources of the records with a text, so there are no sources when there are no
  contexts and never more sources than contexts; a record with a text and no \<^verbatim>\<open>source\<close>
  key contributes the empty string.
\<close>

theorem search_sources_follow_contexts:
  "(contexts (collect rs) = [] \<longrightarrow> sources (collect rs) = []) \<and>
   length (sources (collect rs)) \<le> length (contexts (collect rs)) \<and>
   set (sources (collect rs)) = set (map source_of (filter has_text rs)) \<and>
   (r \<in> set rs \<and> has_text r \<and> map_of (payload_of r) ''source'' = None
      \<longrightarrow> [] \<in> set (sources (collect rs)))"
proof -
  have len: "length (sources (collect rs)) \<le> length (contexts (collect rs))"
    using collect_sources_length [of rs] by (simp add: collect_contexts)
  have empty: "sources (collect rs) = []" if "contexts (collect rs) = []"
    using len that by simp
  have nosrc: "[] \<in> set (sources (collect rs))"
    if "r \<in> set rs" "has_text r" "map_of (payload_of r) ''source'' = None"
  proof -
    from that(3) have "source_of r = []" by (simp add: source_of_def)
    with that(1,2) show ?thesis by (force simp: collect_sources_set)
  qed
  from len empty nosrc collect_sources_set [of rs] show ?thesis by blast
qed

theorem search_sources_follow_contexts_witness:
  "contexts (collect [\<lparr>sp_id = ''p1'', sp_payload = Some [(''source'', ''doc1''), (''text'', [])]\<rparr>]) = [] \<and>
   sources (collect [\<lparr>sp_id = ''p1'', sp_payload = Some [(''source'', ''doc1''), (''text'', [])]\<rparr>]) = [] \<and>
   has_text \<lparr>sp_id = ''p2'', sp_payload = Some [(''text'', ''beta'')]\<rparr> \<and>
   map_of (payload_of \<lparr>sp_id = ''p2'', sp_payload = Some [(''text'', ''beta'')]\<rparr>) ''source'' = None \<and>
   [] \<in> set (sources (collect [\<lparr>sp_id = ''p2'', sp_payload = Some [(''text'', ''beta'')]\<rparr>]))"
proof -
  let ?e = "\<lparr>sp_id = ''p1'', sp_payload = Some [(''source'', ''doc1''), (''text'', [])]\<rparr>"
  let ?b = "\<lparr>sp_id = ''p2'', sp_payload = Some [(''text'', ''beta'')]\<rparr>"
  have c: "contexts (collect [?e]) = []"
    by (simp add: collect_def text_of_def payload_of_def)
  have h: "has_text ?b" by (simp add: has_text_def text_of_def payload_of_def)
  have n: "map_of (payload_of ?b) ''source'' = None" by (simp add: payload_of_def)
  from search_sources_follow_contexts [of "[?e]" ?e] c
  have s: "sources (collect [?e]) = []" by blast
  have m: "?b \<in> set [?b]" by simp
  from search_sources_follow_contexts [of "[?b]" ?b] m h n
  have "[] \<in> set (sources (collect [?b]))" by blast
  with c s h n show ?thesis by blast
qed

text \<open>
  Claim C6. For \<open>top_k \<ge> 1\<close>, \<^verbatim>\<open>search\<close> should return up to \<open>top_k\<close> records, and fewer
  only if the collection holds fewer. The code does not: the collection \<^verbatim>\<open>docs\<close> holds
  two records with a text, and the store, asked for one record under the keyword
  \<^verbatim>\<open>collection_name\<close>, returns the first; \<^verbatim>\<open>search\<close> with \<open>top_k = 1\<close> passes the collection
  under \<^verbatim>\<open>colelction_name\<close>, the call cannot bind its collection and raises \<^verbatim>\<open>TypeError\<close>,
  and no record is returned.
\<close>

theorem search_top_k_raises:
  "qdrant_search stored_order
     [(''docs'', \<lparr>c_size = 2, c_distance = COSINE, c_points =
        [\<lparr>pid = ''p1'', pvector = [1, 0], ppayload = [(''source'', ''doc1''), (''text'', ''alpha'')]\<rparr>,
         \<lparr>pid = ''p2'', pvector = [0, 1], ppayload = [(''source'', ''doc1''), (''text'', ''beta'')]\<rparr>]\<rparr>)]
     [(''collection_name'', AStr ''docs''), (''query_vector'', AVec [1, 0]),
      (''with_payload'', ABool True), (''limit'', AInt 1)]
   = Inr [\<lparr>sp_id = ''p1'', sp_payload = Some [(''source'', ''doc1''), (''text'', ''alpha'')]\<rparr>] \<and>
   search (qdrant_search stored_order)
     \<lparr>store = [(''docs'', \<lparr>c_size = 2, c_distance = COSINE, c_points =
        [\<lparr>pid = ''p1'', pvector = [1, 0], ppayload = [(''source'', ''doc1''), (''text'', ''alpha'')]\<rparr>,
         \<lparr>pid = ''p2'', pvector = [0, 1], ppayload = [(''source'', ''doc1''), (''text'', ''beta'')]\<rparr>]\<rparr>)],
      trace = []\<rparr>
     \<lparr>client_url = ''http://localhost:6333'', collection = ''docs''\<rparr> [1, 0] 1
   = (Inl TypeError,
      \<lparr>store = [(''docs'', \<lparr>c_size = 2, c_distance = COSINE, c_points =
        [\<lparr>pid = ''p1'', pvector = [1, 0], ppayload = [(''source'', ''doc1''), (''text'', ''alpha'')]\<rparr>,
         \<lparr>pid = ''p2'', pvector = [0, 1], ppayload = [(''source'', ''doc1''), (''text'', ''beta'')]\<rparr>]\<rparr>)],
       trace = [ClientSearch
         [(''colelction_name'', AStr ''docs''), (''query_vector'', AVec [1, 0]),
          (''with_payload'', ABool True), (''limit'', AInt 1)]]\<rparr>)"
proof (intro conjI)
  show "qdrant_search stored_order
     [(''docs'', \<lparr>c_size = 2, c_distance = COSINE, c_points =
        [\<lparr>pid = ''p1'', pvector = [1, 0], ppayload = [(''source'', ''doc1''), (''text'', ''alpha'')]\<rparr>,
         \<lparr>pid = ''p2'', pvector = [0, 1], ppayload = [(''source'', ''doc1''), (''text'', ''beta'')]\<rparr>]\<rparr>)]
     [(''collection_name'', AStr ''docs''), (''query_vector'', AVec [1, 0]),
      (''with_payload'', ABool True), (''limit'', AInt 1)]
   = Inr [\<lparr>sp_id = ''p1'', sp_payload = Some [(''source'', ''doc1''), (''text'', ''alpha'')]\<rparr>]"
    by (simp add: qdrant_search_def stored_order_def to_scored_def)
  show "search (qdrant_search stored_order)
     \<lparr>store = [(''docs'', \<lparr>c_size = 2, c_distance = COSINE, c_points =
        [\<lparr>pid = ''p1'', pvector = [1, 0], ppayload = [(''source'', ''doc1''), (''text'', ''alpha'')]\<rparr>,
         \<lparr>pid = ''p2'', pvector = [0, 1], ppayload = [(''source'', ''doc1''), (''text'', ''beta'')]\<rparr>]\<rparr>)],
      trace = []\<rparr>
     \<lparr>client_url = ''http://localhost:6333'', collection = ''docs''\<rparr> [1, 0] 1
   = (Inl TypeError,
      \<lparr>store = [(''docs'', \<lparr>c_size = 2, c_distance = COSINE, c_points =
        [\<lparr>pid = ''p1'', pvector = [1, 0], ppayload = [(''source'', ''doc1''), (''text'', ''alpha'')]\<rparr>,
         \<lparr>pid = ''p2'', pvector = [0, 1], ppayload = [(''source'', ''doc1''), (''text'', ''beta'')]\<rparr>]\<rparr>)],
       trace = [ClientSearch
         [(''colelction_name'', AStr ''docs''), (''query_vector'', AVec [1, 0]),
          (''with_payload'', ABool True), (''limit'', AInt 1)]]\<rparr>)"
    by (simp add: search_misspelt_keyword search_kwargs_def)
qed

section \<open>Construction of the store\<close>

lemma QdrantStorage_init_eq:
  "QdrantStorage_init w url coll vdim =
     (Inr \<lparr>client_url = url, collection = coll\<rparr>,
      if collection_exists (store w) coll
      then w\<lparr>trace := trace w @ [CollectionExists coll]\<rparr>
      else w\<lparr>store := create_collection (store w) coll vdim COSINE,
             trace := trace w @ [CollectionExists coll, CreateCollection coll vdim COSINE]\<rparr>)"
  by (simp add: QdrantStorage_init_def Let_def)

text \<open>
  Claim C5, as amended. When the collection already exists, the constructor asks the
  client whether it exists, creates nothing, leaves the store as it is and returns the
  instance, whatever the caller's \<^verbatim>\<open>dim\<close>: the existing collection's dimension and metric
  are not compared with anything.
\<close>

theorem ensure_collection_existing_is_unchecked_noop:
  "collection_exists (store w) coll \<Longrightarrow>
   QdrantStorage_init w url coll vdim =
     (Inr \<lparr>client_url = url, collection = coll\<rparr>, w\<lparr>trace := trace w @ [CollectionExists coll]\<rparr>)"
  by (simp add: QdrantStorage_init_eq)

theorem ensure_collection_existing_is_unchecked_noop_witness:
  "collection_exists [(''docs'', \<lparr>c_size = 8, c_distance = EUCLID, c_points = []\<rparr>)] ''docs'' \<and>
   QdrantStorage_init
     \<lparr>store = [(''docs'', \<lparr>c_size = 8, c_distance = EUCLID, c_points = []\<rparr>)], trace = []\<rparr>
     ''http://qdrant:6333'' ''docs'' 16
   = (Inr \<lparr>client_url = ''http://qdrant:6333'', collection = ''docs''\<rparr>,
      \<lparr>store = [(''docs'', \<lparr>c_size = 8, c_distance = EUCLID, c_points = []\<rparr>)],
       trace = [CollectionExists ''docs'']\<rparr>)"
proof -
  let ?w = "\<lparr>store = [(''docs'', \<lparr>c_size = 8, c_distance = EUCLID, c_points = []\<rparr>)], trace = []\<rparr>"
  have e: "collection_exists (store ?w) ''docs''"
    by (simp add: collection_exists_def)
  from ensure_collection_existing_is_unchecked_noop [OF e, of "''http://qdrant:6333''" 16] e
  show ?thesis by simp
qed

text \<open>The claim as stated fails: the existing collection has size 4 and dot-product
  distance, the caller asks for size 3072 (and the constructor's cosine distance), and the
  constructor returns the instance.\<close>

theorem ensure_collection_mismatch_counterexample:
  "QdrantStorage_init
     \<lparr>store = [(''docs'', \<lparr>c_size = 4, c_distance = DOT, c_points = []\<rparr>)], trace = []\<rparr>
     ''http://localhost:6333'' ''docs'' 3072
   = (Inr \<lparr>client_url = ''http://localhost:6333'', collection = ''docs''\<rparr>,
      \<lparr>store = [(''docs'', \<lparr>c_size = 4, c_distance = DOT, c_points = []\<rparr>)],
       trace = [CollectionExists ''docs'']\<rparr>)"
  by (simp add: QdrantStorage_init_eq collection_exists_def)

section \<open>Ingestion\<close>

lemma embed_texts_eq:
  "embed_texts emb w texts = (emb texts, w\<lparr>trace := trace w @ [Embed texts]\<rparr>)"
  by (simp add: embed_texts_def)

text \<open>The step \<^verbatim>\<open>_upsert\<close> calls the embedding service once and then fails: with the
  service's error, or with the \<^verbatim>\<open>TypeError\<close> of the call of \<^verbatim>\<open>upsert\<close> on the class. The
  store is not reached.\<close>

lemma inner_upsert_eq:
  "inner_upsert uuid5 emb w cas =
     (case emb (chunks cas) of Inl e \<Rightarrow> Inl e | Inr vecs \<Rightarrow> Inl TypeError,
      w\<lparr>trace := trace w @ [Embed (chunks cas)]\<rparr>)"
  by (simp add: inner_upsert_def embed_texts_def upsert_call_def Let_def split: sum.splits)

lemma inner_upsert_fails:
  "isl (fst (inner_upsert uuid5 emb w cas)) \<and> store (snd (inner_upsert uuid5 emb w cas)) = store w"
  by (simp add: inner_upsert_eq split: sum.splits)

text \<open>
  Claim C3, as amended. When the chunker's output is empty, ingestion does not stop
  early: its first call to an external service is one call of the embedder, with the
  empty list of texts; the ids and the payloads it builds next are the empty lists.
\<close>

theorem ingest_empty_chunks_calls_embedder:
  assumes "inner_load load_data split_texts data = Inr cas" and "chunks cas = []"
  shows "prefix (trace w @ [Embed []])
           (trace (snd (rag_ingest_pdf load_data split_texts uuid5 emb w data))) \<and>
         upsert_ids uuid5 (source_id cas) (chunks cas) = [] \<and>
         upsert_payloads (source_id cas) (chunks cas) = []"
  using assms by (simp add: rag_ingest_pdf_def inner_upsert_eq upsert_ids_def upsert_payloads_def)

theorem ingest_empty_chunks_calls_embedder_witness:
  "inner_load no_text_reader whole_text [(''pdf_path'', ''blank.pdf'')]
     = Inr \<lparr>chunks = [], source_id = ''blank.pdf''\<rparr> \<and>
   prefix [Embed []]
     (trace (snd (rag_ingest_pdf no_text_reader whole_text id unit_embedder
                    \<lparr>store = [], trace = []\<rparr> [(''pdf_path'', ''blank.pdf'')])))"
proof -
  have l: "inner_load no_text_reader whole_text [(''pdf_path'', ''blank.pdf'')]
     = Inr \<lparr>chunks = [], source_id = ''blank.pdf''\<rparr>"
    by (simp add: inner_load_def load_and_chunk_pdf_def no_text_reader_def)
  from ingest_empty_chunks_calls_embedder [OF l, of "\<lparr>store = [], trace = []\<rparr>" id unit_embedder] l
  show ?thesis by simp
qed

text \<open>The claim as stated fails: for a PDF without text the embedder is called (with no
  texts) and no count of 0 is returned.\<close>

theorem ingest_empty_counterexample:
  "fst (rag_ingest_pdf no_text_reader whole_text id unit_embedder \<lparr>store = [], trace = []\<rparr>
          [(''pdf_path'', ''blank.pdf'')]) \<noteq> Inr \<lparr>ingested = 0\<rparr> \<and>
   trace (snd (rag_ingest_pdf no_text_reader whole_text id unit_embedder \<lparr>store = [], trace = []\<rparr>
          [(''pdf_path'', ''blank.pdf'')])) = [Embed []]"
  by (simp add: rag_ingest_pdf_def inner_load_def load_and_chunk_pdf_def no_text_reader_def
      inner_upsert_eq unit_embedder_def)

text \<open>
  Claim C4. For a list of \<open>n > 0\<close> chunks, ingestion should upsert \<open>n\<close> records and return
  \<open>n\<close>. The code does not: at one chunk \<^verbatim>\<open>alpha\<close> of source \<^verbatim>\<open>doc1\<close>, with an embedding
  service that answers and a collection that exists, the step raises \<^verbatim>\<open>TypeError\<close>, the
  collection stays empty and no count is returned.
\<close>

theorem ingest_nonempty_raises:
  "inner_upsert id unit_embedder
     \<lparr>store = [(''docs'', \<lparr>c_size = 2, c_distance = COSINE, c_points = []\<rparr>)], trace = []\<rparr>
     \<lparr>chunks = [''alpha''], source_id = ''doc1''\<rparr>
   = (Inl TypeError,
      \<lparr>store = [(''docs'', \<lparr>c_size = 2, c_distance = COSINE, c_points = []\<rparr>)],
       trace = [Embed [''alpha'']]\<rparr>)"
  by (simp add: inner_upsert_eq unit_embedder_def)

text \<open>The ids of one run are pairwise distinct when the hash does not collide on the names
  of the run.\<close>

lemma upsert_ids_distinct:
  "inj_on uuid5 (uuid_name src ` {0..<length chs}) \<Longrightarrow> distinct (upsert_ids uuid5 src chs)"
proof -
  assume inj: "inj_on uuid5 (uuid_name src ` {0..<length chs})"
  have "inj_on (uuid_name src) {0..<length chs}"
    by (rule inj_onI) (rule uuid_name_inj_index)
  with inj have "inj_on (uuid5 \<circ> uuid_name src) {0..<length chs}"
    by (rule comp_inj_on [rotated])
  then have "distinct (map (uuid5 \<circ> uuid_name src) [0..<length chs])"
    by (simp add: distinct_map)
  then show ?thesis by (simp add: upsert_ids_def derive_id_def comp_def)
qed

text \<open>
  Claim C1. Ingesting the same chunks under the same source id twice should leave the
  records of the run stored once, under the same ids both times. The code does not: at
  the chunks \<^verbatim>\<open>alpha\<close> and \<^verbatim>\<open>beta\<close> of source \<^verbatim>\<open>doc1\<close>, with an embedding service that
  answers and an empty collection \<^verbatim>\<open>docs\<close>, the step builds the two ids and raises
  \<^verbatim>\<open>TypeError\<close> on the first run and again on the second; after both runs the collection
  holds no record, so nothing was stored and nothing was overwritten.
\<close>

theorem ingest_twice_stores_nothing:
  "upsert_ids id ''doc1'' [''alpha'', ''beta''] = [''doc1:0'', ''doc1:1''] \<and>
   fst (inner_upsert id unit_embedder
     \<lparr>store = [(''docs'', \<lparr>c_size = 2, c_distance = COSINE, c_points = []\<rparr>)], trace = []\<rparr>
     \<lparr>chunks = [''alpha'', ''beta''], source_id = ''doc1''\<rparr>) = Inl TypeError \<and>
   inner_upsert id unit_embedder
     (snd (inner_upsert id unit_embedder
        \<lparr>store = [(''docs'', \<lparr>c_size = 2, c_distance = COSINE, c_points = []\<rparr>)], trace = []\<rparr>
        \<lparr>chunks = [''alpha'', ''beta''], source_id = ''doc1''\<rparr>))
     \<lparr>chunks = [''alpha'', ''beta''], source_id = ''doc1''\<rparr>
   = (Inl TypeError,
      \<lparr>store = [(''docs'', \<lparr>c_size = 2, c_distance = COSINE, c_points = []\<rparr>)],
       trace = [Embed [''alpha'', ''beta''], Embed [''alpha'', ''beta'']]\<rparr>) \<and>
   stored_ids
     (store (snd (inner_upsert id unit_embedder
        (snd (inner_upsert id unit_embedder
           \<lparr>store = [(''docs'', \<lparr>c_size = 2, c_distance = COSINE, c_points = []\<rparr>)], trace = []\<rparr>
           \<lparr>chunks = [''alpha'', ''beta''], source_id = ''doc1''\<rparr>))
        \<lparr>chunks = [''alpha'', ''beta''], source_id = ''doc1''\<rparr>)))
     ''docs'' = []"
proof (intro conjI)
  show "upsert_ids id ''doc1'' [''alpha'', ''beta''] = [''doc1:0'', ''doc1:1'']"
    by (simp add: upsert_ids_def derive_id_def uuid_name_def str_nat.simps digit_char_def upt_rec)
qed (simp_all add: inner_upsert_eq unit_embedder_def stored_ids_def)

text \<open>The store's \<^verbatim>\<open>upsert\<close> on concrete batches: what it takes for an id, what it
  refuses, and an overwrite of the record that has the id.\<close>

lemma is_uuid_examples:
  "is_uuid ''6ba7b811-9dad-11d1-80b4-00c04fd430c8'' \<and> \<not> is_uuid ''doc1:0''"
  by (simp add: is_uuid_def hex_digit_def)

lemma client_upsert_refusals:
  "client_upsert [] ''docs'' ps = Inl NotFound \<and>
   client_upsert [(''docs'', \<lparr>c_size = 2, c_distance = COSINE, c_points = []\<rparr>)] ''docs'' []
     = Inl ValidationError \<and>
   client_upsert [(''docs'', \<lparr>c_size = 2, c_distance = COSINE, c_points = []\<rparr>)] ''docs''
     [\<lparr>pid = ''doc1:0'', pvector = [1, 0], ppayload = []\<rparr>] = Inl ValidationError \<and>
   client_upsert [(''docs'', \<lparr>c_size = 2, c_distance = COSINE, c_points = []\<rparr>)] ''docs''
     [\<lparr>pid = ''6ba7b811-9dad-11d1-80b4-00c04fd430c8'', pvector = [1, 0, 0], ppayload = []\<rparr>]
     = Inl DimensionMismatch"
  by (simp add: client_upsert_def is_uuid_def hex_digit_def)

lemma client_upsert_overwrites:
  "client_upsert
     [(''docs'', \<lparr>c_size = 2, c_distance = COSINE, c_points =
        [\<lparr>pid = ''6ba7b811-9dad-11d1-80b4-00c04fd430c8'', pvector = [1, 0], ppayload = [(''text'', ''old'')]\<rparr>]\<rparr>)]
     ''docs''
     [\<lparr>pid = ''6ba7b811-9dad-11d1-80b4-00c04fd430c8'', pvector = [0, 1], ppayload = [(''text'', ''new'')]\<rparr>]
   = Inr [(''docs'', \<lparr>c_size = 2, c_distance = COSINE, c_points =
        [\<lparr>pid = ''6ba7b811-9dad-11d1-80b4-00c04fd430c8'', pvector = [0, 1], ppayload = [(''text'', ''new'')]\<rparr>]\<rparr>)]"
  by (simp add: client_upsert_def is_uuid_def hex_digit_def)

section \<open>Retrieval\<close>

text \<open>The store after \<^verbatim>\<open>_search\<close>: unchanged when the embedding fails or gives no vector;
  otherwise what the constructor leaves.\<close>

lemma inner_search_store:
  "store (snd (inner_search emb cs w question k)) =
     (case emb [question] of
        Inl e \<Rightarrow> store w
      | Inr [] \<Rightarrow> store w
      | Inr (query_vec # rest) \<Rightarrow>
          if collection_exists (store w) ''docs'' then store w
          else create_collection (store w) ''docs'' 3072 COSINE)"
  by (simp add: inner_search_def embed_texts_eq QdrantStorage_init_eq search_unfold
      split: sum.splits list.splits)

lemma create_collection_exists: "collection_exists (create_collection srv name vdim metric) name"
  by (simp add: create_collection_def collection_exists_def)

lemma create_collection_keeps:
  "map_of srv n = Some col \<Longrightarrow> map_of (create_collection srv name vdim metric) n = Some col"
  by (simp add: create_collection_def)

text \<open>
  Claim C9, as amended. Retrieval never changes or removes an existing collection or a
  stored record. The only change it can make to the store is to create the empty
  collection \<^verbatim>\<open>docs\<close> (size 3072, cosine distance) when the store has none of that name;
  when \<^verbatim>\<open>docs\<close> exists the store is left as it is. Of two retrievals in a row, the second
  changes the store only if the first did not.
\<close>

theorem retrieval_store_effect:
  "(store (snd (inner_search emb cs w question k)) = store w \<or>
    store (snd (inner_search emb cs w question k)) = create_collection (store w) ''docs'' 3072 COSINE \<and>
    \<not> collection_exists (store w) ''docs'') \<and>
   (collection_exists (store w) ''docs'' \<longrightarrow>
      store (snd (inner_search emb cs w question k)) = store w) \<and>
   (map_of (store w) name = Some col \<longrightarrow>
      map_of (store (snd (inner_search emb cs w question k))) name = Some col) \<and>
   (store (snd (inner_search emb cs w question k)) = store w \<or>
    store (snd (inner_search emb' cs' (snd (inner_search emb cs w question k)) question' k'))
      = store (snd (inner_search emb cs w question k)))"
proof -
  let ?w1 = "snd (inner_search emb cs w question k)"
  have a: "store ?w1 = store w \<or>
      store ?w1 = create_collection (store w) ''docs'' 3072 COSINE \<and> \<not> collection_exists (store w) ''docs''"
    by (simp add: inner_search_store split: sum.splits list.splits)
  have b: "store ?w1 = store w" if "collection_exists (store w) ''docs''"
    using that by (simp add: inner_search_store split: sum.splits list.splits)
  have c: "map_of (store ?w1) name = Some col" if "map_of (store w) name = Some col"
    using a that by (auto simp: create_collection_keeps)
  have d: "store ?w1 = store w \<or> store (snd (inner_search emb' cs' ?w1 question' k')) = store ?w1"
  proof (cases "store ?w1 = store w")
    case True
    then show ?thesis by simp
  next
    case False
    with a have "store ?w1 = create_collection (store w) ''docs'' 3072 COSINE" by blast
    then have "collection_exists (store ?w1) ''docs''"
      by (simp only: create_collection_exists)
    then have "store (snd (inner_search emb' cs' ?w1 question' k')) = store ?w1"
      by (simp add: inner_search_store split: sum.splits list.splits)
    then show ?thesis by simp
  qed
  from a b c d show ?thesis by blast
qed

theorem retrieval_store_effect_witness:
  "collection_exists [(''docs'', \<lparr>c_size = 3072, c_distance = COSINE, c_points = []\<rparr>)] ''docs'' \<and>
   map_of [(''docs'', \<lparr>c_size = 3072, c_distance = COSINE, c_points = []\<rparr>)] ''docs''
     = Some \<lparr>c_size = 3072, c_distance = COSINE, c_points = []\<rparr> \<and>
   store (snd (inner_search unit_embedder (stub_search [])
     \<lparr>store = [(''docs'', \<lparr>c_size = 3072, c_distance = COSINE, c_points = []\<rparr>)], trace = []\<rparr>
     ''what is it?'' 5))
   = [(''docs'', \<lparr>c_size = 3072, c_distance = COSINE, c_points = []\<rparr>)] \<and>
   map_of (store (snd (inner_search unit_embedder (stub_search [])
     \<lparr>store = [(''docs'', \<lparr>c_size = 3072, c_distance = COSINE, c_points = []\<rparr>)], trace = []\<rparr>
     ''what is it?'' 5))) ''docs''
   = Some \<lparr>c_size = 3072, c_distance = COSINE, c_points = []\<rparr>"
proof -
  let ?srv = "[(''docs'', \<lparr>c_size = 3072, c_distance = COSINE, c_points = []\<rparr>)]"
  let ?w = "\<lparr>store = ?srv, trace = []\<rparr>"
  have e: "collection_exists (store ?w) ''docs''" by (simp add: collection_exists_def)
  have m: "map_of ?srv ''docs'' = Some \<lparr>c_size = 3072, c_distance = COSINE, c_points = []\<rparr>"
    by simp
  have m': "map_of (store ?w) ''docs'' = Some \<lparr>c_size = 3072, c_distance = COSINE, c_points = []\<rparr>"
    by simp
  note eff = retrieval_store_effect [of unit_embedder "stub_search []" ?w "''what is it?''" 5
      "''docs''" "\<lparr>c_size = 3072, c_distance = COSINE, c_points = []\<rparr>"]
  from eff e
  have s: "store (snd (inner_search unit_embedder (stub_search []) ?w ''what is it?'' 5)) = store ?w"
    by blast
  from eff m'
  have k: "map_of (store (snd (inner_search unit_embedder (stub_search []) ?w ''what is it?'' 5))) ''docs''
      = Some \<lparr>c_size = 3072, c_distance = COSINE, c_points = []\<rparr>"
    by blast
  from e m s k show ?thesis by simp
qed

text \<open>The claim as stated fails: on a store without collections, retrieval creates the
  collection \<^verbatim>\<open>docs\<close>, with the client double as with the reference client.\<close>

theorem retrieval_creates_collection_counterexample:
  "inner_search unit_embedder (stub_search []) \<lparr>store = [], trace = []\<rparr> ''what is it?'' 5
   = (Inr \<lparr>res_contexts = [], res_sources = []\<rparr>,
      \<lparr>store = [(''docs'', \<lparr>c_size = 3072, c_distance = COSINE, c_points = []\<rparr>)],
       trace = [Embed [''what is it?''], CollectionExists ''docs'',
                CreateCollection ''docs'' 3072 COSINE,
                ClientSearch (search_kwargs
                  \<lparr>client_url = ''http://localhost:6333'', collection = ''docs''\<rparr> [1, 0] 5)]\<rparr>) \<and>
   store (snd (inner_search unit_embedder (qdrant_search stored_order) \<lparr>store = [], trace = []\<rparr>
                 ''what is it?'' 5))
   = [(''docs'', \<lparr>c_size = 3072, c_distance = COSINE, c_points = []\<rparr>)]"
  by (simp add: inner_search_def embed_texts_eq unit_embedder_def QdrantStorage_init_eq
      collection_exists_def create_collection_def search_unfold stub_search_def
      search_kwargs_def collect_def qdrant_search_def)

end
